theory Spec2Isabelle
  imports Main "HOL-Library.Sublist"
begin

section \<open>The store: schema of \<open>NYCDB._create_tables\<close>\<close>

text \<open>
  The five tables of \<open>src/nyc.py\<close>, \<open>_create_tables\<close>. A table is the list of its rows in
  rowid order (the pipeline never deletes, so this is insertion order). Columns declared
  \<open>NOT NULL\<close> hold plain values; \<open>zip\<close> and \<open>phone\<close> may be NULL. The two
  \<open>AUTOINCREMENT\<close> tables carry their \<open>sqlite_sequence\<close> counter.

  Statement parameters are optional values: pandas reads a missing CSV cell as NaN and the
  sqlite3 driver binds NaN as NULL (\<open>None\<close> here). A present cell is taken to have the
  column's type; characters are taken to be ASCII.
\<close>

record rest =
  r_camis :: int
  r_dba :: string
  r_boro :: string
  r_building :: string
  r_street :: string
  r_zip :: "int option"
  r_phone :: "int option"
  r_cuisine_id :: int

record insp =
  i_camis :: int
  i_insp_date :: string
  i_insp_time :: string
  i_viol_id :: string
  i_action_id :: int

record db =
  tCuisine :: "(int \<times> string) list"
  seqCuisine :: int
  tViol :: "(string \<times> string) list"
  tAction :: "(int \<times> string) list"
  seqAction :: int
  tRest :: "rest list"
  tInsp :: "insp list"

text \<open>The SQL statements of the source, each with its bound parameters.\<close>

datatype sql =
    SelectCuisine "string option"
  | InsertCuisine "string option"
  | SelectAction "string option"
  | InsertAction "string option"
  | SelectViol "string option"
  | InsertViol "string option" "string option"
  | SelectRest "int option"
  | InsertRest "int option" "string option" "string option" "string option" "string option"
      "int option" "int option" "int option"
  | SelectInsp "int option" "string option" "string option" "string option"
  | InsertInsp "int option" "string option" "string option" "string option" "int option"

datatype exn_kind =
    IntegrityError | OperationalError | ProgrammingError | AttributeError
  | UnicodeDecodeError | ParserError | OSError | TypeError

datatype info = SqlCtx sql | FileCtx string | Cause

datatype pyerr = PyErr exn_kind info

text \<open>
  \<open>type(e)(message)\<close>: most exception classes accept one message string; the constructor
  of \<open>UnicodeDecodeError\<close> takes exactly five arguments and raises \<open>TypeError\<close> on one.
\<close>

fun ctor_accepts_message :: "exn_kind \<Rightarrow> bool" where
  "ctor_accepts_message UnicodeDecodeError = False"
| "ctor_accepts_message _ = True"

definition retype :: "exn_kind \<Rightarrow> info \<Rightarrow> pyerr" where
  "retype k ctx = (if ctor_accepts_message k then PyErr k ctx else PyErr TypeError Cause)"

subsection \<open>Constraints\<close>

text \<open>
  SQLite's \<open>LIKE\<close> for the patterns of the schema: \<open>_\<close> matches any one character, every
  other pattern character matches itself (the patterns hold no \<open>%\<close> and no letters).
\<close>

fun like_match :: "string \<Rightarrow> string \<Rightarrow> bool" where
  "like_match [] [] = True"
| "like_match [] (c # cs) = False"
| "like_match (p # ps) [] = False"
| "like_match (p # ps) (c # cs) = ((p = CHR ''_'' \<or> p = c) \<and> like_match ps cs)"

definition date_pattern :: string where
  "date_pattern = ''__/__/____''"

definition time_pattern :: string where
  "time_pattern = ''__:__:__''"

definition max_id :: "int list \<Rightarrow> int" where
  "max_id ids = fold max ids 0"

text \<open>\<open>AUTOINCREMENT\<close>: one more than the larger of the sequence counter and the largest rowid.\<close>

definition next_auto :: "int \<Rightarrow> (int \<times> string) list \<Rightarrow> int" where
  "next_auto s rows = max s (max_id (map fst rows)) + 1"

subsection \<open>Executing one statement\<close>

text \<open>Rows returned by the five lookups, in table order.\<close>

definition select_cuisine :: "db \<Rightarrow> string option \<Rightarrow> int list" where
  "select_cuisine d p = (case p of None \<Rightarrow> []
     | Some x \<Rightarrow> map fst (filter (\<lambda>r. snd r = x) (tCuisine d)))"

definition select_action :: "db \<Rightarrow> string option \<Rightarrow> int list" where
  "select_action d p = (case p of None \<Rightarrow> []
     | Some x \<Rightarrow> map fst (filter (\<lambda>r. snd r = x) (tAction d)))"

definition select_viol :: "db \<Rightarrow> string option \<Rightarrow> (string \<times> string) list" where
  "select_viol d p = (case p of None \<Rightarrow> []
     | Some v \<Rightarrow> filter (\<lambda>r. fst r = v) (tViol d))"

definition select_rest :: "db \<Rightarrow> int option \<Rightarrow> rest list" where
  "select_rest d p = (case p of None \<Rightarrow> []
     | Some c \<Rightarrow> filter (\<lambda>r. r_camis r = c) (tRest d))"

definition select_insp ::
  "db \<Rightarrow> int option \<Rightarrow> string option \<Rightarrow> string option \<Rightarrow> string option \<Rightarrow> insp list" where
  "select_insp d pc pd pt pv = (case (pc, pd, pt, pv) of
       (Some c, Some dt, Some tm, Some v) \<Rightarrow>
         filter (\<lambda>r. i_camis r = c \<and> i_insp_date r = dt \<and> i_insp_time r = tm \<and> i_viol_id r = v)
           (tInsp d)
     | _ \<Rightarrow> [])"

text \<open>
  \<open>cursor.execute\<close> on a write: the new store and \<open>lastrowid\<close>, or the kind of the failure.
  A violated \<open>NOT NULL\<close>, \<open>CHECK\<close>, \<open>PRIMARY KEY\<close> or \<open>REFERENCES\<close> (foreign keys are on for
  every connection, \<open>_connect\<close>) is an \<open>IntegrityError\<close>. A lookup run as an action changes
  nothing.
\<close>

fun execute :: "db \<Rightarrow> sql \<Rightarrow> exn_kind + (db \<times> int)" where
  "execute d (InsertCuisine p) = (case p of None \<Rightarrow> Inl IntegrityError
     | Some x \<Rightarrow> (let n = next_auto (seqCuisine d) (tCuisine d)
                  in Inr (d\<lparr>tCuisine := tCuisine d @ [(n, x)], seqCuisine := n\<rparr>, n)))"
| "execute d (InsertAction p) = (case p of None \<Rightarrow> Inl IntegrityError
     | Some x \<Rightarrow> (let n = next_auto (seqAction d) (tAction d)
                  in Inr (d\<lparr>tAction := tAction d @ [(n, x)], seqAction := n\<rparr>, n)))"
| "execute d (InsertViol pv pd) = (case (pv, pd) of
       (Some v, Some x) \<Rightarrow>
         (if v \<in> fst ` set (tViol d) then Inl IntegrityError
          else Inr (d\<lparr>tViol := tViol d @ [(v, x)]\<rparr>, int (length (tViol d)) + 1))
     | _ \<Rightarrow> Inl IntegrityError)"
| "execute d (InsertRest pc pdba pboro pbld pstr pz pph pcu) = (case (pdba, pboro, pbld, pstr, pcu) of
       (Some a, Some b, Some g, Some s, Some cu) \<Rightarrow>
         (let c = (case pc of Some c \<Rightarrow> c | None \<Rightarrow> max_id (map r_camis (tRest d)) + 1)
          in if c \<in> r_camis ` set (tRest d) then Inl IntegrityError
             else if cu \<notin> fst ` set (tCuisine d) then Inl IntegrityError
             else Inr (d\<lparr>tRest := tRest d @
                    [\<lparr>r_camis = c, r_dba = a, r_boro = b, r_building = g, r_street = s,
                      r_zip = pz, r_phone = pph, r_cuisine_id = cu\<rparr>]\<rparr>, c))
     | _ \<Rightarrow> Inl IntegrityError)"
| "execute d (InsertInsp pc pd pt pv pa) = (case (pc, pd, pt, pv, pa) of
       (Some c, Some dt, Some tm, Some v, Some a) \<Rightarrow>
         (if \<not> like_match date_pattern dt then Inl IntegrityError
          else if \<not> like_match time_pattern tm then Inl IntegrityError
          else if select_insp d pc pd pt pv \<noteq> [] then Inl IntegrityError
          else if c \<notin> r_camis ` set (tRest d) then Inl IntegrityError
          else if v \<notin> fst ` set (tViol d) then Inl IntegrityError
          else if a \<notin> fst ` set (tAction d) then Inl IntegrityError
          else Inr (d\<lparr>tInsp := tInsp d @
                 [\<lparr>i_camis = c, i_insp_date = dt, i_insp_time = tm, i_viol_id = v,
                   i_action_id = a\<rparr>]\<rparr>, int (length (tInsp d)) + 1))
     | _ \<Rightarrow> Inl IntegrityError)"
| "execute d _ = Inr (d, 0)"

section \<open>\<open>BaseDB\<close>: the connection and its transaction\<close>

text \<open>
  \<open>committed\<close> is the content of the database file. An open connection holds the store as
  its transaction sees it; \<open>commit\<close> writes it to the file, \<open>rollback\<close> and \<open>close\<close> drop
  what was not committed. \<open>NoConn\<close>: \<open>self._conn\<close> was never assigned.
\<close>

datatype conn_state = NoConn | Closed | Opened db

record nycdb =
  committed :: db
  conn :: conn_state

definition connect :: "nycdb \<Rightarrow> nycdb" where
  "connect s = (case conn s of Opened w \<Rightarrow> s | _ \<Rightarrow> s\<lparr>conn := Opened (committed s)\<rparr>)"

definition close :: "nycdb \<Rightarrow> nycdb" where
  "close s = s\<lparr>conn := Closed\<rparr>"

definition rollback :: "nycdb \<Rightarrow> nycdb" where
  "rollback s = (case conn s of Opened w \<Rightarrow> s\<lparr>conn := Opened (committed s)\<rparr> | _ \<Rightarrow> s)"

text \<open>The store as the next statement sees it.\<close>

definition view :: "nycdb \<Rightarrow> db" where
  "view s = (case conn s of Opened w \<Rightarrow> w | _ \<Rightarrow> committed s)"

text \<open>
  \<open>run_query\<close>: the lookup is given by the statement (for the error's context) and by the
  rows it returns; \<open>finally\<close> closes unless \<open>keep_open\<close>.
\<close>

definition run_query ::
  "nycdb \<Rightarrow> sql \<Rightarrow> (db \<Rightarrow> exn_kind + 'a list) \<Rightarrow> bool \<Rightarrow> nycdb \<times> (pyerr + 'a list)" where
  "run_query s q rows keep_open =
     (let s1 = connect s;
          s2 = (if keep_open then s1 else close s1)
      in case rows (view s1) of
           Inl k \<Rightarrow> (s2, Inl (retype k (SqlCtx q)))
         | Inr res \<Rightarrow> (s2, Inr res))"

text \<open>
  \<open>run_action\<close>: on failure \<open>rollback\<close>, \<open>_close\<close>, raise; \<open>finally\<close> closes again unless
  \<open>keep_open\<close> (closing a closed connection does nothing).
\<close>

definition run_action :: "nycdb \<Rightarrow> sql \<Rightarrow> bool \<Rightarrow> nycdb \<times> (pyerr + int)" where
  "run_action s q keep_open =
     (let s1 = connect s
      in case execute (view s1) q of
           Inl k \<Rightarrow>
             (let s2 = close (rollback s1);
                  s3 = (if keep_open then s2 else close s2)
              in (s3, Inl (retype k (SqlCtx q))))
         | Inr (w, rowid) \<Rightarrow>
             (let s2 = s1\<lparr>conn := Opened w\<rparr>;
                  s3 = (if keep_open then s2 else close s2)
              in (s3, Inr rowid)))"

section \<open>\<open>NYCDB\<close>: the load pipeline\<close>

subsection \<open>Get-or-create, one function per entity\<close>

definition get_cuisine :: "nycdb \<Rightarrow> string option \<Rightarrow> nycdb \<times> (pyerr + int)" where
  "get_cuisine s cuisine =
     (case run_query s (SelectCuisine cuisine) (\<lambda>d. Inr (select_cuisine d cuisine)) True of
        (s1, Inl e) \<Rightarrow> (s1, Inl e)
      | (s1, Inr query) \<Rightarrow>
          (case query of
             [] \<Rightarrow> run_action s1 (InsertCuisine cuisine) True
           | cuisine_id # _ \<Rightarrow> (s1, Inr cuisine_id)))"

definition get_action :: "nycdb \<Rightarrow> string option \<Rightarrow> nycdb \<times> (pyerr + int)" where
  "get_action s action_desc =
     (case run_query s (SelectAction action_desc) (\<lambda>d. Inr (select_action d action_desc)) True of
        (s1, Inl e) \<Rightarrow> (s1, Inl e)
      | (s1, Inr query) \<Rightarrow>
          (case query of
             [] \<Rightarrow> run_action s1 (InsertAction action_desc) True
           | action_id # _ \<Rightarrow> (s1, Inr action_id)))"

definition discard :: "nycdb \<times> (pyerr + int) \<Rightarrow> nycdb \<times> (pyerr + unit)" where
  "discard r = (case r of (s, Inl e) \<Rightarrow> (s, Inl e) | (s, Inr _) \<Rightarrow> (s, Inr ()))"

definition load_rest ::
  "nycdb \<Rightarrow> int option \<Rightarrow> string option \<Rightarrow> string option \<Rightarrow> string option \<Rightarrow> string option \<Rightarrow>
   int option \<Rightarrow> int option \<Rightarrow> int option \<Rightarrow> nycdb \<times> (pyerr + unit)" where
  "load_rest s camis dba boro building street zip_v phone cuisine_id =
     (case run_query s (SelectRest camis) (\<lambda>d. Inr (select_rest d camis)) True of
        (s1, Inl e) \<Rightarrow> (s1, Inl e)
      | (s1, Inr query) \<Rightarrow>
          (if length query = 0
           then discard (run_action s1
                  (InsertRest camis dba boro building street zip_v phone cuisine_id) True)
           else (s1, Inr ())))"

definition load_insp ::
  "nycdb \<Rightarrow> int option \<Rightarrow> string option \<Rightarrow> string option \<Rightarrow> string option \<Rightarrow> int option \<Rightarrow>
   nycdb \<times> (pyerr + unit)" where
  "load_insp s camis insp_date insp_time viol_id action_id =
     (case run_query s (SelectInsp camis insp_date insp_time viol_id)
             (\<lambda>d. Inr (select_insp d camis insp_date insp_time viol_id)) True of
        (s1, Inl e) \<Rightarrow> (s1, Inl e)
      | (s1, Inr query) \<Rightarrow>
          (if length query = 0
           then discard (run_action s1
                  (InsertInsp camis insp_date insp_time viol_id action_id) True)
           else (s1, Inr ())))"

definition load_viol :: "nycdb \<Rightarrow> string option \<Rightarrow> string option \<Rightarrow> nycdb \<times> (pyerr + unit)" where
  "load_viol s viol_id viol_desc =
     (case run_query s (SelectViol viol_id) (\<lambda>d. Inr (select_viol d viol_id)) True of
        (s1, Inl e) \<Rightarrow> (s1, Inl e)
      | (s1, Inr query) \<Rightarrow>
          (if length query = 0
           then discard (run_action s1 (InsertViol viol_id viol_desc) True)
           else (s1, Inr ())))"

subsection \<open>The synthesized inspection time\<close>

text \<open>
  \<open>str\<close> of an integer and \<open>str.zfill\<close>.
\<close>

definition digit_char :: "nat \<Rightarrow> char" where
  "digit_char n = char_of (48 + n)"

fun str_nat :: "nat \<Rightarrow> string" where
  "str_nat n = (if n < 10 then [digit_char n] else str_nat (n div 10) @ [digit_char (n mod 10)])"

declare str_nat.simps [simp del]

definition str_int :: "int \<Rightarrow> string" where
  "str_int i = (if i < 0 then CHR ''-'' # str_nat (nat (- i)) else str_nat (nat i))"

definition zfill :: "nat \<Rightarrow> string \<Rightarrow> string" where
  "zfill w s =
     (if w \<le> length s then s
      else case s of
             c # cs \<Rightarrow> (if c = CHR ''+'' \<or> c = CHR ''-''
                        then c # replicate (w - length s) CHR ''0'' @ cs
                        else replicate (w - length s) CHR ''0'' @ s)
           | [] \<Rightarrow> replicate w CHR ''0'')"

text \<open>
  \<open>np.random.randint(lo, hi, size)\<close>. The generator is a parameter: a state \<open>g\<close> and a
  function \<open>draw\<close> giving, for a state and the bounds, a raw number and the next state; a
  draw is \<open>lo\<close> plus the raw number reduced into the \<open>hi - lo\<close> values of the half-open range,
  which is all numpy promises of the values. \<open>g0\<close> below is the state after
  \<open>np.random.seed(7)\<close>.
\<close>

fun randint :: "('g \<Rightarrow> int \<Rightarrow> int \<Rightarrow> nat \<times> 'g) \<Rightarrow> 'g \<Rightarrow> int \<Rightarrow> int \<Rightarrow> nat \<Rightarrow> int list \<times> 'g" where
  "randint draw g lo hi 0 = ([], g)"
| "randint draw g lo hi (Suc n) =
     (case draw g lo hi of (r, g1) \<Rightarrow>
        (case randint draw g1 lo hi n of (xs, g2) \<Rightarrow>
           ((lo + int r mod (hi - lo)) # xs, g2)))"

definition fmt_time :: "int \<times> int \<times> int \<Rightarrow> string" where
  "fmt_time x = (case x of (hi, mi, si) \<Rightarrow>
     zfill 2 (str_int hi) @ '':'' @ zfill 2 (str_int mi) @ '':'' @ zfill 2 (str_int si))"

definition synth_hms :: "('g \<Rightarrow> int \<Rightarrow> int \<Rightarrow> nat \<times> 'g) \<Rightarrow> 'g \<Rightarrow> nat \<Rightarrow> (int \<times> int \<times> int) list" where
  "synth_hms draw g0 n =
     (case randint draw g0 9 (17 + 1) n of (h, g1) \<Rightarrow>
        (case randint draw g1 0 (60 + 1) n of (m, g2) \<Rightarrow>
           (case randint draw g2 0 (60 + 1) n of (s, g3) \<Rightarrow>
              zip h (zip m s))))"

definition synth_times :: "('g \<Rightarrow> int \<Rightarrow> int \<Rightarrow> nat \<times> 'g) \<Rightarrow> 'g \<Rightarrow> nat \<Rightarrow> string list" where
  "synth_times draw g0 n = map fmt_time (synth_hms draw g0 n)"

subsection \<open>\<open>load_nyc_file\<close>\<close>

text \<open>One record of the data frame after the renaming; every column of the header is present.\<close>

record csvrow =
  CAMIS :: "int option"
  DBA :: "string option"
  BORO :: "string option"
  BUILDING :: "string option"
  STREET :: "string option"
  ZIPCODE :: "int option"
  PHONE :: "int option"
  cuisine_desc :: "string option"
  insp_date :: "string option"
  action_desc :: "string option"
  viol_id :: "string option"
  viol_desc :: "string option"

text \<open>The body of the loop, for one record and its \<open>insp_time\<close>.\<close>

definition load_row :: "nycdb \<Rightarrow> csvrow \<times> string \<Rightarrow> nycdb \<times> (pyerr + unit)" where
  "load_row s rt = (case rt of (row, insp_time) \<Rightarrow>
     (case get_cuisine s (cuisine_desc row) of
        (s1, Inl e) \<Rightarrow> (s1, Inl e)
      | (s1, Inr cuisine_id) \<Rightarrow>
     (case get_action s1 (action_desc row) of
        (s2, Inl e) \<Rightarrow> (s2, Inl e)
      | (s2, Inr action_id) \<Rightarrow>
     (case load_viol s2 (viol_id row) (viol_desc row) of
        (s3, Inl e) \<Rightarrow> (s3, Inl e)
      | (s3, Inr _) \<Rightarrow>
     (case load_rest s3 (CAMIS row) (DBA row) (BORO row) (BUILDING row) (STREET row)
             (ZIPCODE row) (PHONE row) (Some cuisine_id) of
        (s4, Inl e) \<Rightarrow> (s4, Inl e)
      | (s4, Inr _) \<Rightarrow>
        load_insp s4 (CAMIS row) (insp_date row) (Some insp_time) (viol_id row)
          (Some action_id))))))"

fun load_rows :: "nycdb \<Rightarrow> (csvrow \<times> string) list \<Rightarrow> nycdb \<times> (pyerr + unit)" where
  "load_rows s [] = (s, Inr ())"
| "load_rows s (rt # rts) =
     (case load_row s rt of
        (s1, Inl e) \<Rightarrow> (s1, Inl e)
      | (s1, Inr _) \<Rightarrow> load_rows s1 rts)"

text \<open>\<open>self._conn.commit()\<close> then \<open>self._close()\<close>, on whatever connection the object has.\<close>

definition commit_close :: "nycdb \<Rightarrow> nycdb \<times> (pyerr + unit)" where
  "commit_close s =
     (case conn s of
        NoConn \<Rightarrow> (s, Inl (PyErr AttributeError Cause))
      | Closed \<Rightarrow> (s, Inl (PyErr ProgrammingError Cause))
      | Opened w \<Rightarrow> (close (s\<lparr>committed := w\<rparr>), Inr ()))"

text \<open>\<open>df['insp_time'] = t\<close>: each record with its synthesized time, one per data row.\<close>

definition assign_insp_time ::
  "('g \<Rightarrow> int \<Rightarrow> int \<Rightarrow> nat \<times> 'g) \<Rightarrow> 'g \<Rightarrow> csvrow list \<Rightarrow> (csvrow \<times> string) list" where
  "assign_insp_time draw g0 df = zip df (synth_times draw g0 (length df))"

text \<open>
  \<open>load_nyc_file\<close>, given what \<open>pd.read_csv\<close> makes of the file: an error, or the records.
\<close>

definition load_nyc_file ::
  "('g \<Rightarrow> int \<Rightarrow> int \<Rightarrow> nat \<times> 'g) \<Rightarrow> 'g \<Rightarrow> nycdb \<Rightarrow> pyerr + csvrow list \<Rightarrow> nycdb \<times> (pyerr + unit)" where
  "load_nyc_file draw g0 s content =
     (case content of
        Inl e \<Rightarrow> (s, Inl e)
      | Inr df \<Rightarrow>
          (case load_rows s (assign_insp_time draw g0 df) of
             (s1, Inl e) \<Rightarrow> (s1, Inl e)
           | (s1, Inr _) \<Rightarrow> commit_close s1))"

subsection \<open>\<open>load_new_data\<close>: the directory scan\<close>

definition PATH_TO_LOAD :: string where
  "PATH_TO_LOAD = ''data/to_load/''"

definition PATH_LOADED :: string where
  "PATH_LOADED = ''data/loaded/''"

text \<open>\<open>str.replace\<close>: every occurrence, left to right, not overlapping.\<close>

fun replace_nonempty :: "string \<Rightarrow> string \<Rightarrow> string \<Rightarrow> string" where
  "replace_nonempty old new [] = []"
| "replace_nonempty old new (c # cs) =
     (if prefix old (c # cs) \<and> old \<noteq> []
      then new @ replace_nonempty old new (drop (length old - 1) cs)
      else c # replace_nonempty old new cs)"

definition str_replace :: "string \<Rightarrow> string \<Rightarrow> string \<Rightarrow> string" where
  "str_replace old new s =
     (if old = [] then new @ concat (map (\<lambda>c. c # new) s) else replace_nonempty old new s)"

text \<open>
  The file system: paths with what \<open>pd.read_csv\<close> makes of each file, in the order
  \<open>glob\<close> lists them. \<open>glob\<close> with \<open>data/to_load/nyc*.csv\<close> keeps the paths directly under
  the intake directory whose name starts with \<open>nyc\<close> and ends with \<open>.csv\<close>.
\<close>

record world =
  store :: nycdb
  files :: "(string \<times> (pyerr + csvrow list)) list"

definition matches_pattern :: "string \<Rightarrow> bool" where
  "matches_pattern p = (prefix PATH_TO_LOAD p \<and>
     (let name = drop (length PATH_TO_LOAD) p
      in CHR ''/'' \<notin> set name \<and> prefix ''nyc'' name \<and> suffix ''.csv'' name \<and> 7 \<le> length name))"

definition glob_to_load :: "world \<Rightarrow> string list" where
  "glob_to_load w = filter matches_pattern (map fst (files w))"

text \<open>\<open>os.rename\<close> into the archive directory, which is taken to exist: an entry at the target is replaced.\<close>

definition rename :: "string \<Rightarrow> string \<Rightarrow> (string \<times> 'c) list \<Rightarrow> (string \<times> 'c) list" where
  "rename src dst fs =
     (case map_of fs src of
        None \<Rightarrow> fs
      | Some c \<Rightarrow> (if src = dst then fs
                   else filter (\<lambda>e. fst e \<noteq> src \<and> fst e \<noteq> dst) fs @ [(dst, c)]))"

text \<open>
  The loop of \<open>load_new_data\<close>. The handler only evaluates \<open>type(e)(message)\<close>: the error is
  dropped when the class takes a message, and the construction itself raises otherwise.
\<close>

fun scan_files ::
  "('g \<Rightarrow> int \<Rightarrow> int \<Rightarrow> nat \<times> 'g) \<Rightarrow> 'g \<Rightarrow> world \<Rightarrow> string list \<Rightarrow> world \<times> (pyerr + unit)" where
  "scan_files draw g0 w [] = (w, Inr ())"
| "scan_files draw g0 w (file # fs) =
     (let content = (case map_of (files w) file of
                       None \<Rightarrow> Inl (PyErr OSError (FileCtx file))
                     | Some c \<Rightarrow> c)
      in case load_nyc_file draw g0 (store w) content of
           (s1, Inr _) \<Rightarrow>
             scan_files draw g0
               (w\<lparr>store := s1,
                  files := rename file (str_replace PATH_TO_LOAD PATH_LOADED file) (files w)\<rparr>) fs
         | (s1, Inl (PyErr k c)) \<Rightarrow>
             (if ctor_accepts_message k then scan_files draw g0 (w\<lparr>store := s1\<rparr>) fs
              else (w\<lparr>store := s1\<rparr>, Inl (PyErr TypeError Cause))))"

definition load_new_data ::
  "('g \<Rightarrow> int \<Rightarrow> int \<Rightarrow> nat \<times> 'g) \<Rightarrow> 'g \<Rightarrow> world \<Rightarrow> world \<times> (pyerr + unit)" where
  "load_new_data draw g0 w = scan_files draw g0 w (glob_to_load w)"

section \<open>The specification's date format, and example stores\<close>



definition empty_db :: db where
  "empty_db = \<lparr>tCuisine = [], seqCuisine = 0, tViol = [], tAction = [], seqAction = 0,
                tRest = [], tInsp = []\<rparr>"

definition fresh_store :: nycdb where
  "fresh_store = \<lparr>committed = empty_db, conn = Closed\<rparr>"

definition demo_rest :: rest where
  "demo_rest = \<lparr>r_camis = 41, r_dba = ''CAFE'', r_boro = ''Queens'', r_building = ''12'',
                 r_street = ''MAIN ST'', r_zip = Some 11101, r_phone = None, r_cuisine_id = 1\<rparr>"

definition demo_insp :: insp where
  "demo_insp = \<lparr>i_camis = 41, i_insp_date = ''01/02/2020'', i_insp_time = ''09:30:60'',
                 i_viol_id = ''04L'', i_action_id = 1\<rparr>"

definition demo_db :: db where
  "demo_db = \<lparr>tCuisine = [(1, ''Thai'')], seqCuisine = 1, tViol = [(''04L'', ''Mice'')],
               tAction = [(1, ''Cited''), (2, ''Closed'')], seqAction = 2,
               tRest = [demo_rest], tInsp = [demo_insp]\<rparr>"

definition demo_store :: nycdb where
  "demo_store = \<lparr>committed = demo_db, conn = Closed\<rparr>"


text \<open>A generator for examples: the raw numbers 0, 1, 2, ... in turn.\<close>

definition counter_draw :: "nat \<Rightarrow> int \<Rightarrow> int \<Rightarrow> nat \<times> nat" where
  "counter_draw g lo hi = (g, Suc g)"

definition demo_row :: csvrow where
  "demo_row = \<lparr>CAMIS = Some 41, DBA = Some ''CAFE'', BORO = Some ''Queens'',
                BUILDING = Some ''12'', STREET = Some ''MAIN ST'', ZIPCODE = Some 11101,
                PHONE = None, cuisine_desc = Some ''Thai'', insp_date = Some ''01/02/2020'',
                action_desc = Some ''Cited'', viol_id = Some ''04L'',
                viol_desc = Some ''Mice''\<rparr>"

section \<open>Properties of the gateway\<close>

lemma connect_eq: "connect s = s\<lparr>conn := Opened (view s)\<rparr>"
  by (cases s) (auto simp: connect_def view_def split: conn_state.splits)

lemma view_upd [simp]: "view (s\<lparr>conn := Opened w\<rparr>) = w"
  by (simp add: view_def)

lemma view_closed [simp]: "view (s\<lparr>conn := Closed\<rparr>) = committed s"
  by (simp add: view_def)



lemma run_query_keep:
  "run_query s q (\<lambda>d. Inr (f d)) True = (s\<lparr>conn := Opened (view s)\<rparr>, Inr (f (view s)))"
  by (simp add: run_query_def connect_eq)


lemma view_fresh_store: "view fresh_store = empty_db"
  by (simp add: fresh_store_def view_def)

lemma view_demo_store: "view demo_store = demo_db"
  by (simp add: demo_store_def view_def)



section \<open>Properties of the writes\<close>



text \<open>
  C9. When a row with the same restaurant, date, time and violation code is stored,
  \<open>load_insp\<close> inserts nothing and raises nothing, whatever \<open>action_id\<close> it is given: the
  lookup compares the four key columns only, and the stored row keeps its action.
\<close>

theorem load_insp_duplicate_key:
  "r \<in> set (tInsp (view s)) \<Longrightarrow>
     load_insp s (Some (i_camis r)) (Some (i_insp_date r)) (Some (i_insp_time r))
       (Some (i_viol_id r)) action_id = (connect s, Inr ())
     \<and> view (connect s) = view s \<and> committed (connect s) = committed s"
  by (auto simp: load_insp_def run_query_keep connect_eq select_insp_def filter_empty_conv)

theorem load_insp_duplicate_key_witness:
  "demo_insp \<in> set (tInsp (view demo_store))
   \<and> load_insp demo_store (Some 41) (Some ''01/02/2020'') (Some ''09:30:60'') (Some ''04L'')
       (Some 2) = (connect demo_store, Inr ())
   \<and> tInsp (view (connect demo_store)) = [demo_insp]
   \<and> i_action_id demo_insp = 1"
proof -
  have h: "demo_insp \<in> set (tInsp (view demo_store))"
    by (simp add: view_demo_store demo_db_def)
  show ?thesis
    using h load_insp_duplicate_key [OF h, of "Some 2"]
    by (simp add: demo_insp_def view_demo_store demo_db_def)
qed










end
